theory Spec2Isabelle
  imports Complex_Main
begin

section \<open>The MIDAS node (\<^verbatim>\<open>midas/node.py\<close>)\<close>

text \<open>
  The development follows \<^verbatim>\<open>class BaseNode\<close>. Python floats (the \<^verbatim>\<open>'d'\<close> arrays, the time
  stamps, \<^verbatim>\<open>buffer_size_s\<close>) are idealised as \<^typ>\<open>real\<close>; Python integers are \<^typ>\<open>int\<close>.
  A raised exception is a value \<open>Inl e\<close> of the result type.
\<close>

subsection \<open>Python values and errors\<close>

datatype py_error =
    AttributeError string
  | TypeError string
  | UnboundLocalError string
  | KeyError string
  | IndexError
  | ZeroDivisionError

type_synonym 'a result = "py_error + 'a"

text \<open>\<^verbatim>\<open>int(x)\<close> on a float truncates toward zero.\<close>

definition py_int :: "real \<Rightarrow> int" where
  "py_int x = (if 0 \<le> x then \<lfloor>x\<rfloor> else \<lceil>x\<rceil>)"

text \<open>\<^verbatim>\<open>[v] * n\<close>: the empty list when \<open>n\<close> is not positive.\<close>

definition py_repeat :: "'a \<Rightarrow> int \<Rightarrow> 'a list" where
  "py_repeat v n = replicate (nat n) v"

text \<open>
  \<^verbatim>\<open>xs[i]\<close> and \<^verbatim>\<open>xs[i] = v\<close>: a negative index counts from the end, an index out of range
  raises \<^verbatim>\<open>IndexError\<close>.
\<close>

definition py_index :: "nat \<Rightarrow> int \<Rightarrow> nat option" where
  "py_index len i =
     (if 0 \<le> i \<and> i < int len then Some (nat i)
      else if - int len \<le> i \<and> i < 0 then Some (nat (int len + i))
      else None)"

definition py_get :: "'a list \<Rightarrow> int \<Rightarrow> 'a result" where
  "py_get xs i =
     (case py_index (length xs) i of None \<Rightarrow> Inl IndexError | Some j \<Rightarrow> Inr (xs ! j))"

definition py_set :: "'a list \<Rightarrow> int \<Rightarrow> 'a \<Rightarrow> 'a list result" where
  "py_set xs i v =
     (case py_index (length xs) i of None \<Rightarrow> Inl IndexError | Some j \<Rightarrow> Inr (xs[j := v]))"

text \<open>\<^verbatim>\<open>[xs[j] for j in ind]\<close>: the first index out of range raises.\<close>

fun py_gather :: "'a list \<Rightarrow> int list \<Rightarrow> 'a list result" where
  "py_gather xs [] = Inr []"
| "py_gather xs (j # js) =
     (case py_get xs j of
        Inl e \<Rightarrow> Inl e
      | Inr v \<Rightarrow> (case py_gather xs js of Inl e \<Rightarrow> Inl e | Inr vs \<Rightarrow> Inr (v # vs)))"

text \<open>
  \<^verbatim>\<open>xs[a:b]\<close> for integer bounds: a negative bound counts from the end, and both are
  clamped to the list. A slice never raises.
\<close>

definition py_bound :: "nat \<Rightarrow> int \<Rightarrow> nat" where
  "py_bound n i = (if i < 0 then nat (int n + i) else min n (nat i))"

definition py_slice :: "'a list \<Rightarrow> int \<Rightarrow> int \<Rightarrow> 'a list" where
  "py_slice xs a b = drop (py_bound (length xs) a) (take (py_bound (length xs) b) xs)"

text \<open>\<^verbatim>\<open>s.split(c)\<close> and \<^verbatim>\<open>s.replace(c, d)\<close> for one-character \<open>c\<close> and \<open>d\<close>.\<close>

fun split_on :: "char \<Rightarrow> string \<Rightarrow> string list" where
  "split_on c [] = [[]]"
| "split_on c (x # xs) =
     (if x = c then [] # split_on c xs
      else (case split_on c xs of
              [] \<Rightarrow> [[x]]
            | w # ws \<Rightarrow> (x # w) # ws))"

definition replace_char :: "char \<Rightarrow> char \<Rightarrow> string \<Rightarrow> string" where
  "replace_char c d s = map (\<lambda>x. if x = c then d else x) s"

subsection \<open>The node object\<close>

text \<open>
  A metric callable takes the channel-data bundle and the extra parameters. It returns a
  value (\<open>Inr\<close>) or raises \<^verbatim>\<open>TypeError\<close> with a message (\<open>Inl\<close>), the one exception
  \<^verbatim>\<open>analyze_metric\<close> handles.
\<close>

datatype param = Num real | Text string

datatype pyval = Str string | FloatV real | ListV "real list"

type_synonym metric_fn = "real list list \<Rightarrow> param list \<Rightarrow> string + pyval"

text \<open>The secondary buffers exist only when \<^verbatim>\<open>secondary_data\<close> is set (lines 234-259).\<close>

record secondary_buffers =
  channel_data_secondary :: "real list list"
  time_array_secondary :: "real list list"
  last_time_secondary :: "real list"
  wptr_secondary :: "int list"
  buffer_full_secondary :: "int list"

text \<open>The attributes assigned in the primary branch of the constructor only (lines 172-179).\<close>

record primary_attrs =
  pa_lsl_stream_name :: "string option"
  pa_n_channels :: "int option"
  pa_channel_names :: "string list"
  pa_channel_descriptions :: "string list option"
  pa_sampling_rate :: int
  pa_buffer_size_s :: real
  pa_buffer_size :: int

record node =
  primary_node :: bool
  lsl_stream_name :: "string option"
  n_channels :: int
  channel_names :: "string list"
  channel_descriptions :: "string list"
  sampling_rate :: int
  buffer_size_s :: real
  buffer_size :: int
  secondary_data :: bool
  default_channel :: string
  n_channels_secondary :: int
  buffer_size_secondary :: "int list"
  channel_names_secondary :: "string list"
  channel_descriptions_secondary :: "string list"
  run_state :: int
  wptr :: int
  buffer_full :: int
  channel_data :: "real list list"
  time_array :: "real list"
  last_time :: real
  secondary :: "secondary_buffers option"
  metric_functions :: "(string \<times> metric_fn) list"
  metric_names :: "string list"
  metric_pointers :: "string \<rightharpoonup> metric_fn"

subsection \<open>The constructor \<^verbatim>\<open>BaseNode.__init__\<close>\<close>

text \<open>
  The arguments after the configuration dictionary has been read (lines 59-136 only
  replace arguments by parsed configuration values). \<^verbatim>\<open>n_channels\<close> and
  \<^verbatim>\<open>sampling_rate\<close> default to \<^verbatim>\<open>None\<close>. The identity, address and publisher
  attributes (lines 139-170) take no part in the buffers and are left out.
\<close>

record init_args =
  arg_primary_node :: bool
  arg_lsl_stream_name :: "string option"
  arg_n_channels :: "int option"
  arg_channel_names :: "string list"
  arg_channel_descriptions :: "string list option"
  arg_sampling_rate :: "int option"
  arg_buffer_size_s :: real
  arg_secondary_data :: bool
  arg_n_channels_secondary :: int
  arg_buffer_size_secondary :: int
  arg_channel_names_secondary :: "string list"
  arg_channel_descriptions_secondary :: "string list option"
  arg_default_channel :: string

text \<open>
  Lines 172-179. The primary attributes are assigned only when \<^verbatim>\<open>primary_node\<close> holds;
  \<open>None\<close> is the object without them. \<^verbatim>\<open>buffer_size_s * sampling_rate\<close> raises
  \<^verbatim>\<open>TypeError\<close> when the rate is \<^verbatim>\<open>None\<close>.
\<close>

definition init_primary_attrs :: "init_args \<Rightarrow> primary_attrs option result" where
  "init_primary_attrs a =
     (if arg_primary_node a then
        (case arg_sampling_rate a of
           None \<Rightarrow> Inl (TypeError ''unsupported operand type(s) for *'')
         | Some r \<Rightarrow>
             Inr (Some \<lparr> pa_lsl_stream_name = arg_lsl_stream_name a,
                         pa_n_channels = arg_n_channels a,
                         pa_channel_names = arg_channel_names a,
                         pa_channel_descriptions = arg_channel_descriptions a,
                         pa_sampling_rate = r,
                         pa_buffer_size_s = arg_buffer_size_s a,
                         pa_buffer_size = py_int (arg_buffer_size_s a * of_int r) \<rparr>))
      else Inr None)"

text \<open>
  Lines 190-191: \<^verbatim>\<open>self.channel_descriptions\<close> is read whether or not the primary branch
  ran; the default \<^verbatim>\<open>[''] * self.n_channels\<close> needs an integer.
\<close>

definition init_channel_descriptions :: "primary_attrs option \<Rightarrow> string list result" where
  "init_channel_descriptions pa =
     (case pa of
        None \<Rightarrow> Inl (AttributeError ''channel_descriptions'')
      | Some p \<Rightarrow>
          (case pa_channel_descriptions p of
             Some ds \<Rightarrow> Inr ds
           | None \<Rightarrow>
               (case pa_n_channels p of
                  None \<Rightarrow> Inl (TypeError ''can't multiply sequence by non-int'')
                | Some n \<Rightarrow> Inr (py_repeat '''' n))))"

text \<open>Lines 234-259: the secondary buffers, one per secondary channel.\<close>

definition init_secondary :: "init_args \<Rightarrow> secondary_buffers option" where
  "init_secondary a =
     (if arg_secondary_data a then
        (let m = arg_n_channels_secondary a;
             sizes = py_repeat (arg_buffer_size_secondary a) m
         in Some \<lparr> channel_data_secondary = map (\<lambda>b. py_repeat 0 b) sizes,
                    time_array_secondary = map (\<lambda>b. py_repeat 0 b) sizes,
                    last_time_secondary = py_repeat 0 m,
                    wptr_secondary = py_repeat 0 m,
                    buffer_full_secondary = py_repeat 0 m \<rparr>)
      else None)"

text \<open>
  Lines 172-276 in order. Past line 190 the node is a primary one; the primary buffers
  (lines 220-227) need an integer \<^verbatim>\<open>n_channels\<close>.
\<close>

definition init :: "init_args \<Rightarrow> node result" where
  "init a =
     (case init_primary_attrs a of
        Inl e \<Rightarrow> Inl e
      | Inr pa \<Rightarrow>
          (case init_channel_descriptions pa of
             Inl e \<Rightarrow> Inl e
           | Inr ds \<Rightarrow>
               (case pa of
                  None \<Rightarrow> Inl (AttributeError ''channel_descriptions'')
                | Some p \<Rightarrow>
                    (case pa_n_channels p of
                       None \<Rightarrow> Inl (TypeError ''can't multiply sequence by non-int'')
                     | Some n \<Rightarrow>
                         Inr \<lparr> primary_node = arg_primary_node a,
                               lsl_stream_name = pa_lsl_stream_name p,
                               n_channels = n,
                               channel_names = pa_channel_names p,
                               channel_descriptions = ds,
                               sampling_rate = pa_sampling_rate p,
                               buffer_size_s = pa_buffer_size_s p,
                               buffer_size = pa_buffer_size p,
                               secondary_data = arg_secondary_data a,
                               default_channel = arg_default_channel a,
                               n_channels_secondary = arg_n_channels_secondary a,
                               buffer_size_secondary =
                                 py_repeat (arg_buffer_size_secondary a)
                                   (arg_n_channels_secondary a),
                               channel_names_secondary = arg_channel_names_secondary a,
                               channel_descriptions_secondary =
                                 (case arg_channel_descriptions_secondary a of
                                    Some d2 \<Rightarrow> d2
                                  | None \<Rightarrow> py_repeat '''' (arg_n_channels_secondary a)),
                               run_state = 0,
                               wptr = 0,
                               buffer_full = 0,
                               channel_data =
                                 py_repeat (py_repeat 0 (pa_buffer_size p)) n,
                               time_array = py_repeat 0 (pa_buffer_size p),
                               last_time = 0,
                               secondary = init_secondary a,
                               metric_functions = [],
                               metric_names = [],
                               metric_pointers = Map.empty \<rparr>))))"

subsection \<open>The receiver (lines 295-336)\<close>

text \<open>
  Lines 321-322: \<^verbatim>\<open>for k in range(self.n_channels): self.channel_data[k][self.wptr.value] = x[k]\<close>.
\<close>

fun store_sample :: "real list list \<Rightarrow> int \<Rightarrow> real list \<Rightarrow> nat list \<Rightarrow> real list list result" where
  "store_sample cd w x [] = Inr cd"
| "store_sample cd w x (k # ks) =
     (case py_get x (int k) of
        Inl e \<Rightarrow> Inl e
      | Inr v \<Rightarrow>
          (case py_get cd (int k) of
             Inl e \<Rightarrow> Inl e
           | Inr row \<Rightarrow>
               (case py_set row w v of
                  Inl e \<Rightarrow> Inl e
                | Inr row' \<Rightarrow> store_sample (cd[k := row']) w x ks)))"

text \<open>
  Lines 319-332, the part of one iteration that runs with \<^verbatim>\<open>lock_primary\<close> held. \<open>i\<close> is
  the receiver's local sample counter; \<open>t = None\<close> is a sample without a time stamp.
\<close>

definition receiver_locked :: "node \<Rightarrow> int \<Rightarrow> real list \<Rightarrow> real option \<Rightarrow> (node \<times> int) result" where
  "receiver_locked n i x t =
     (case store_sample (channel_data n) (wptr n) x [0 ..< nat (n_channels n)] of
        Inl e \<Rightarrow> Inl e
      | Inr cd \<Rightarrow>
          (let t' = (case t of None \<Rightarrow> last_time n + of_int (sampling_rate n) | Some v \<Rightarrow> v)
           in case py_set (time_array n) (wptr n) t' of
                Inl e \<Rightarrow> Inl e
              | Inr ta \<Rightarrow>
                  (if buffer_size n = 0 then Inl ZeroDivisionError
                   else Inr (n\<lparr> channel_data := cd, time_array := ta, last_time := t',
                                wptr := (i + 1) mod buffer_size n \<rparr>, i + 1))))"

text \<open>Lines 334-336, after the lock has been released.\<close>

definition receiver_flag :: "node \<Rightarrow> int \<Rightarrow> node" where
  "receiver_flag n i =
     (if 0 = buffer_full n \<and> i \<ge> buffer_size n then n\<lparr> buffer_full := 1 \<rparr> else n)"

definition receiver_iteration :: "node \<Rightarrow> int \<Rightarrow> real list \<times> real option \<Rightarrow> (node \<times> int) result" where
  "receiver_iteration n i s =
     (case receiver_locked n i (fst s) (snd s) of
        Inl e \<Rightarrow> Inl e
      | Inr (n', i') \<Rightarrow> Inr (receiver_flag n' i', i'))"

text \<open>
  The loop of lines 316-336 over the samples the inlet delivers while \<^verbatim>\<open>run_state\<close> is
  set; the first exception ends the receiver.
\<close>

fun receiver_loop :: "node \<Rightarrow> int \<Rightarrow> (real list \<times> real option) list \<Rightarrow> (node \<times> int) result" where
  "receiver_loop n i [] = Inr (n, i)"
| "receiver_loop n i (s # ss) =
     (case receiver_iteration n i s of
        Inl e \<Rightarrow> Inl e
      | Inr (n', i') \<Rightarrow> receiver_loop n' i' ss)"

text \<open>Lines 314-315 and the loop: \<^verbatim>\<open>i = 0\<close>, \<^verbatim>\<open>last_time\<close> reset to \<open>0\<close>.\<close>

definition receiver :: "node \<Rightarrow> (real list \<times> real option) list \<Rightarrow> (node \<times> int) result" where
  "receiver n ss = receiver_loop (n\<lparr> last_time := 0 \<rparr>) 0 ss"

subsection \<open>Helpers of \<^verbatim>\<open>midas.utilities\<close>\<close>

text \<open>
  Modelled from the spec: \<^verbatim>\<open>utilities.get_index_vector(buffer_size, buffer_full, wptr)\<close>,
  whose source is not part of \<^verbatim>\<open>node.py\<close>. The spec gives the unwrap index vector as
  \<open>[w, w+1, \<dots>, B-1, 0, \<dots>, w-1]\<close> when the buffer is full and \<open>[0, \<dots>, w-1]\<close> otherwise.
\<close>

definition get_index_vector :: "int \<Rightarrow> int \<Rightarrow> int \<Rightarrow> int list" where
  "get_index_vector B bf w = (if bf \<noteq> 0 then [w .. B - 1] @ [0 .. w - 1] else [0 .. w - 1])"

text \<open>
  Modelled from the spec: the window test of \<^verbatim>\<open>utilities.find_range\<close>, an age lying
  within the bounds \<open>[lo, hi]\<close>, both included.
\<close>

definition in_window :: "real \<Rightarrow> real \<Rightarrow> real \<Rightarrow> bool" where
  "in_window lo hi a = (lo \<le> a \<and> a \<le> hi)"

text \<open>
  Modelled from the spec: \<^verbatim>\<open>utilities.find_range(ages, timewindow)\<close>, whose source is not
  part of \<^verbatim>\<open>node.py\<close>. The spec has it compute start and stop indices selecting the
  sub-range whose age lies within \<open>[end_offset - duration, end_offset]\<close>, the window
  bounds after the transform, that is within \<open>[timewindow[1], timewindow[0]]\<close>: the run of
  ages inside the window that starts at the first such age. A window of fewer than two
  elements raises \<^verbatim>\<open>IndexError\<close>.
\<close>

definition find_range :: "real list \<Rightarrow> real list \<Rightarrow> (int \<times> int) result" where
  "find_range ages tw =
     (case py_get tw 0 of
        Inl e \<Rightarrow> Inl e
      | Inr hi \<Rightarrow>
          (case py_get tw 1 of
             Inl e \<Rightarrow> Inl e
           | Inr lo \<Rightarrow>
               (let start = length (takeWhile (\<lambda>a. \<not> in_window lo hi a) ages);
                    stop = start + length (takeWhile (in_window lo hi) (drop start ages))
                in Inr (int start, int stop))))"

subsection \<open>Snapshots (lines 406-488)\<close>

text \<open>Lines 426-427 and 474-475: \<^verbatim>\<open>[abs(i - ts[-1]) for i in ts]\<close>; nothing is read of an empty \<open>ts\<close>.\<close>

definition age_transform :: "real list \<Rightarrow> real list" where
  "age_transform ts = map (\<lambda>t. \<bar>t - last ts\<bar>) ts"

text \<open>
  Lines 411-420, the copies taken with \<^verbatim>\<open>lock_primary\<close> held: the time array, the full
  flag, the write index and every channel array.
\<close>

record primary_copy =
  time_array_copy :: "real list"
  bf_copy :: int
  wp_copy :: int
  channel_data_copy :: "real list list"

definition snapshot_copy :: "node \<Rightarrow> primary_copy result" where
  "snapshot_copy n =
     (case py_gather (channel_data n) (map int [0 ..< nat (n_channels n)]) of
        Inl e \<Rightarrow> Inl e
      | Inr cd \<Rightarrow>
          Inr \<lparr> time_array_copy = time_array n, bf_copy = buffer_full n,
                wp_copy = wptr n, channel_data_copy = cd \<rparr>)"

text \<open>Lines 435-438 and 484-486: each channel unwrapped by \<open>ind\<close>, then sliced.\<close>

fun unwrap_rows :: "real list list \<Rightarrow> int list \<Rightarrow> int \<Rightarrow> int \<Rightarrow> real list list result" where
  "unwrap_rows [] ind a b = Inr []"
| "unwrap_rows (row # rows) ind a b =
     (case py_gather row ind of
        Inl e \<Rightarrow> Inl e
      | Inr r \<Rightarrow>
          (case unwrap_rows rows ind a b of
             Inl e \<Rightarrow> Inl e
           | Inr rs \<Rightarrow> Inr (py_slice r a b # rs)))"

text \<open>Line 430: \<^verbatim>\<open>timewindow[1] = timewindow[0] - timewindow[1]\<close>, in place.\<close>

definition transform_window :: "real list \<Rightarrow> real list result" where
  "transform_window tw =
     (case py_get tw 0 of
        Inl e \<Rightarrow> Inl e
      | Inr a \<Rightarrow> (case py_get tw 1 of Inl e \<Rightarrow> Inl e | Inr b \<Rightarrow> py_set tw 1 (a - b)))"

text \<open>
  Lines 421-440, on the copies. The result carries the channel data, the age vector and
  the caller's \<^verbatim>\<open>timewindow\<close> list as the call leaves it.
\<close>

definition unwrap_primary ::
  "node \<Rightarrow> primary_copy \<Rightarrow> real list \<Rightarrow> ((real list list \<times> real list) \<times> real list) result" where
  "unwrap_primary n c tw =
     (let ind = get_index_vector (buffer_size n) (bf_copy c) (wp_copy c)
      in case py_gather (time_array_copy c) ind of
           Inl e \<Rightarrow> Inl e
         | Inr ts \<Rightarrow>
             (let ages = age_transform ts
              in case transform_window tw of
                   Inl e \<Rightarrow> Inl e
                 | Inr tw' \<Rightarrow>
                     (case find_range ages tw' of
                        Inl e \<Rightarrow> Inl e
                      | Inr (index_start, index_stop) \<Rightarrow>
                          (case unwrap_rows (channel_data_copy c) ind index_start index_stop of
                             Inl e \<Rightarrow> Inl e
                           | Inr cd \<Rightarrow>
                               Inr ((cd, py_slice ages index_start index_stop), tw')))))"

definition data_snapshot ::
  "node \<Rightarrow> real list \<Rightarrow> ((real list list \<times> real list) \<times> real list) result" where
  "data_snapshot n tw =
     (case snapshot_copy n of Inl e \<Rightarrow> Inl e | Inr c \<Rightarrow> unwrap_primary n c tw)"

text \<open>Lines 465-486, one secondary channel: the window is used as it is handed in (line 478 is a comment).\<close>

definition unwrap_secondary_channel ::
  "int \<Rightarrow> int \<Rightarrow> int \<Rightarrow> real list \<Rightarrow> real list \<Rightarrow> real list \<Rightarrow> (real list \<times> real list) result" where
  "unwrap_secondary_channel B bf w tms row tw =
     (let ind = get_index_vector B bf w
      in case py_gather tms ind of
           Inl e \<Rightarrow> Inl e
         | Inr ts \<Rightarrow>
             (let ages = age_transform ts
              in case find_range ages tw of
                   Inl e \<Rightarrow> Inl e
                 | Inr (index_start, index_stop) \<Rightarrow>
                     (case py_gather row ind of
                        Inl e \<Rightarrow> Inl e
                      | Inr r \<Rightarrow>
                          Inr (py_slice r index_start index_stop,
                               py_slice ages index_start index_stop))))"

text \<open>Lines 452-463, the copies taken with every secondary lock held.\<close>

record secondary_copy =
  sc_channel_data :: "real list list"
  sc_time_array :: "real list list"
  sc_wp :: "int list"
  sc_bf :: "int list"

definition snapshot_copy_secondary :: "node \<Rightarrow> secondary_copy result" where
  "snapshot_copy_secondary n =
     (case secondary n of
        None \<Rightarrow>
          Inl (AttributeError
                 (if 0 < n_channels_secondary n then ''channel_data_secondary''
                  else ''wptr_secondary''))
      | Some sb \<Rightarrow>
          (let ks = map int [0 ..< nat (n_channels_secondary n)]
           in case py_gather (channel_data_secondary sb) ks of
                Inl e \<Rightarrow> Inl e
              | Inr cd \<Rightarrow>
                  (case py_gather (time_array_secondary sb) ks of
                     Inl e \<Rightarrow> Inl e
                   | Inr ta \<Rightarrow>
                       Inr \<lparr> sc_channel_data = cd, sc_time_array = ta,
                             sc_wp = wptr_secondary sb, sc_bf = buffer_full_secondary sb \<rparr>)))"

text \<open>The loop of lines 465-486 over the channel indices.\<close>

fun unwrap_secondary ::
  "node \<Rightarrow> secondary_copy \<Rightarrow> real list \<Rightarrow> nat list \<Rightarrow> (real list \<times> real list) list result" where
  "unwrap_secondary n c tw [] = Inr []"
| "unwrap_secondary n c tw (k # ks) =
     (case py_get (buffer_size_secondary n) (int k) of
        Inl e \<Rightarrow> Inl e
      | Inr B \<Rightarrow>
     (case py_get (sc_bf c) (int k) of
        Inl e \<Rightarrow> Inl e
      | Inr bf \<Rightarrow>
     (case py_get (sc_wp c) (int k) of
        Inl e \<Rightarrow> Inl e
      | Inr w \<Rightarrow>
     (case py_get (sc_time_array c) (int k) of
        Inl e \<Rightarrow> Inl e
      | Inr tms \<Rightarrow>
     (case py_get (sc_channel_data c) (int k) of
        Inl e \<Rightarrow> Inl e
      | Inr row \<Rightarrow>
     (case unwrap_secondary_channel B bf w tms row tw of
        Inl e \<Rightarrow> Inl e
      | Inr r \<Rightarrow>
     (case unwrap_secondary n c tw ks of
        Inl e \<Rightarrow> Inl e
      | Inr rs \<Rightarrow> Inr (r # rs))))))))"

definition data_snapshot_secondary ::
  "node \<Rightarrow> real list \<Rightarrow> (real list list \<times> real list list) result" where
  "data_snapshot_secondary n tw =
     (case snapshot_copy_secondary n of
        Inl e \<Rightarrow> Inl e
      | Inr c \<Rightarrow>
          (case unwrap_secondary n c tw [0 ..< nat (n_channels_secondary n)] of
             Inl e \<Rightarrow> Inl e
           | Inr rs \<Rightarrow> Inr (map fst rs, map snd rs)))"

subsection \<open>Secondary writers (lines 490-528)\<close>

definition push_sample_secondary :: "node \<Rightarrow> int \<Rightarrow> real \<Rightarrow> real \<Rightarrow> node result" where
  "push_sample_secondary n ch timep v =
     (case secondary n of
        None \<Rightarrow> Inl (AttributeError ''channel_data_secondary'')
      | Some sb \<Rightarrow>
     (case py_get (channel_data_secondary sb) ch of
        Inl e \<Rightarrow> Inl e
      | Inr row \<Rightarrow>
     (case py_get (wptr_secondary sb) ch of
        Inl e \<Rightarrow> Inl e
      | Inr w \<Rightarrow>
     (case py_set row w v of
        Inl e \<Rightarrow> Inl e
      | Inr row' \<Rightarrow>
     (case py_set (channel_data_secondary sb) ch row' of
        Inl e \<Rightarrow> Inl e
      | Inr cds \<Rightarrow>
     (case py_get (time_array_secondary sb) ch of
        Inl e \<Rightarrow> Inl e
      | Inr tms \<Rightarrow>
     (case py_set tms w timep of
        Inl e \<Rightarrow> Inl e
      | Inr tms' \<Rightarrow>
     (case py_set (time_array_secondary sb) ch tms' of
        Inl e \<Rightarrow> Inl e
      | Inr tas \<Rightarrow>
     (case py_set (wptr_secondary sb) ch (w + 1) of
        Inl e \<Rightarrow> Inl e
      | Inr wps \<Rightarrow>
     (case py_get (buffer_full_secondary sb) ch of
        Inl e \<Rightarrow> Inl e
      | Inr bf \<Rightarrow>
     (case py_get (buffer_size_secondary n) ch of
        Inl e \<Rightarrow> Inl e
      | Inr B \<Rightarrow>
     (case py_set (buffer_full_secondary sb) ch (if 0 = bf \<and> w + 1 \<ge> B then 1 else bf) of
        Inl e \<Rightarrow> Inl e
      | Inr bfs \<Rightarrow>
          (if B = 0 then Inl ZeroDivisionError
           else
             (case py_set wps ch ((w + 1) mod B) of
                Inl e \<Rightarrow> Inl e
              | Inr wps' \<Rightarrow>
                  Inr (n\<lparr> secondary := Some (sb\<lparr>
                         channel_data_secondary := cds,
                         time_array_secondary := tas,
                         buffer_full_secondary := bfs,
                         wptr_secondary := wps' \<rparr>) \<rparr>)))))))))))))))"

fun push_chunk_secondary :: "node \<Rightarrow> int \<Rightarrow> (real \<times> real) list \<Rightarrow> node result" where
  "push_chunk_secondary n ch [] = Inr n"
| "push_chunk_secondary n ch ((t, v) # tvs) =
     (case push_sample_secondary n ch t v of
        Inl e \<Rightarrow> Inl e
      | Inr n' \<Rightarrow> push_chunk_secondary n' ch tvs)"

subsection \<open>Requests: \<^verbatim>\<open>get_data\<close> and \<^verbatim>\<open>analyze_metric\<close> (lines 533-655)\<close>

text \<open>
  Modelled from the spec: \<^verbatim>\<open>utilities.get_channel_index(names, cn)\<close>, whose source is not
  part of \<^verbatim>\<open>node.py\<close>: the position of the channel name in the list of names. The source
  calls it for a name that is in the list.
\<close>

definition get_channel_index :: "string list \<Rightarrow> string \<Rightarrow> int" where
  "get_channel_index names cn = int (length (takeWhile (\<lambda>c. c \<noteq> cn) names))"

text \<open>
  Modelled from the spec: \<^verbatim>\<open>utilities.get_channel_data\<close>, whose source is not part of
  \<^verbatim>\<open>node.py\<close>: the channel-data bundle of a metric invocation, the snapshot row of every
  named channel, drawn from the primary snapshot or the secondary one depending on where
  the name resides. A snapshot that was not taken is \<^verbatim>\<open>None\<close>, and indexing it raises
  \<^verbatim>\<open>TypeError\<close>.
\<close>

fun get_channel_data ::
  "string list \<Rightarrow> real list list option \<Rightarrow> real list list option \<Rightarrow> string list \<Rightarrow> string list
     \<Rightarrow> real list list result" where
  "get_channel_data [] cd cds names names2 = Inr []"
| "get_channel_data (c # cs) cd cds names names2 =
     (case (if c \<in> set names then
              (case cd of
                 None \<Rightarrow> Inl (TypeError ''NoneType object is not subscriptable'')
               | Some rows \<Rightarrow> py_get rows (get_channel_index names c))
            else
              (case cds of
                 None \<Rightarrow> Inl (TypeError ''NoneType object is not subscriptable'')
               | Some rows \<Rightarrow> py_get rows (get_channel_index names2 c))) of
        Inl e \<Rightarrow> Inl e
      | Inr row \<Rightarrow>
          (case get_channel_data cs cd cds names names2 of
             Inl e \<Rightarrow> Inl e
           | Inr rows \<Rightarrow> Inr (row # rows)))"

text \<open>
  Lines 544-549 and 587-597, shared by both request handlers: the primary snapshot when
  \<^verbatim>\<open>primary_node\<close> holds, then the secondary snapshot when \<^verbatim>\<open>secondary_data\<close> holds, both
  called with the one \<^verbatim>\<open>timewindow\<close> list. The third component is that list after the
  calls.
\<close>

type_synonym snapshots =
  "(real list list \<times> real list) option \<times> (real list list \<times> real list list) option \<times> real list"

definition take_snapshots :: "node \<Rightarrow> real list \<Rightarrow> snapshots result" where
  "take_snapshots n tw =
     (case (if primary_node n then
              (case data_snapshot n tw of
                 Inl e \<Rightarrow> Inl e
               | Inr (p, tw') \<Rightarrow> Inr (Some p, tw'))
            else Inr (None, tw)) of
        Inl e \<Rightarrow> Inl e
      | Inr (prim, tw1) \<Rightarrow>
          (if secondary_data n then
             (case data_snapshot_secondary n tw1 of
                Inl e \<Rightarrow> Inl e
              | Inr s \<Rightarrow> Inr (prim, Some s, tw1))
           else Inr (prim, None, tw1)))"





text \<open>Line 603: the key of a specifier in the reply.\<close>

definition metric_key :: "string \<Rightarrow> string" where
  "metric_key spec = replace_char CHR '','' CHR ''_'' (replace_char CHR '':'' CHR ''_'' spec)"

text \<open>
  Lines 604-619: the metric name, the named channels when the specifier has a channel
  field, and whether they were all found.
\<close>

definition metric_name :: "string \<Rightarrow> string" where
  "metric_name spec = (case split_on CHR '':'' spec of [] \<Rightarrow> [] | m # rest \<Rightarrow> m)"

definition metric_channels :: "string \<Rightarrow> string list option" where
  "metric_channels spec =
     (case split_on CHR '':'' spec of
        m # chs # rest \<Rightarrow>
          Some (if CHR '','' \<in> set chs then split_on CHR '','' chs else [chs])
      | _ \<Rightarrow> None)"

definition channels_found :: "node \<Rightarrow> string \<Rightarrow> bool" where
  "channels_found n spec =
     (case metric_channels spec of
        None \<Rightarrow> False
      | Some channels \<Rightarrow>
          set channels \<subseteq> set (channel_names n @ channel_names_secondary n))"

text \<open>
  Lines 636-641: every field after the name is replaced by its \<^verbatim>\<open>float\<close> value when
  Python parses one. \<open>pf\<close> is Python's \<^verbatim>\<open>float\<close> on strings, \<open>None\<close> for \<^verbatim>\<open>ValueError\<close>.
\<close>

definition coerce :: "(string \<Rightarrow> real option) \<Rightarrow> string \<Rightarrow> param" where
  "coerce pf s = (case pf s of None \<Rightarrow> Text s | Some r \<Rightarrow> Num r)"

definition unknown_metric :: pyval where
  "unknown_metric = Str ''unknown metric and/or channel''"

text \<open>
  Lines 603-653, one specifier: the value stored under its key, or the exception that
  leaves the loop. \<open>cd\<close> and \<open>cds\<close> are the snapshots' channel data.
\<close>

definition metric_value ::
  "(string \<Rightarrow> real option) \<Rightarrow> node \<Rightarrow> real list list option \<Rightarrow> real list list option
     \<Rightarrow> string \<Rightarrow> pyval result" where
  "metric_value pf n cd cds spec =
     (if metric_name spec \<in> set (metric_names n) \<and> channels_found n spec then
        (let tmp = tl (split_on CHR '':'' spec)
         in case get_channel_data (case metric_channels spec of None \<Rightarrow> [] | Some cs \<Rightarrow> cs)
                   cd cds (channel_names n) (channel_names_secondary n) of
              Inl e \<Rightarrow> Inl e
            | Inr data \<Rightarrow>
                (case metric_pointers n (metric_name spec) of
                   None \<Rightarrow> Inl (KeyError (metric_name spec))
                 | Some f \<Rightarrow>
                     (case (if length tmp > 1 then f data (tl (map (coerce pf) tmp))
                            else f data []) of
                        Inl msg \<Rightarrow> Inr (Str msg)
                      | Inr v \<Rightarrow> Inr v)))
      else Inr unknown_metric)"

type_synonym metric_results = "string \<rightharpoonup> pyval"

fun analyze_loop ::
  "(string \<Rightarrow> real option) \<Rightarrow> node \<Rightarrow> real list list option \<Rightarrow> real list list option
     \<Rightarrow> metric_results \<Rightarrow> string list \<Rightarrow> metric_results result" where
  "analyze_loop pf n cd cds results [] = Inr results"
| "analyze_loop pf n cd cds results (spec # specs) =
     (case metric_value pf n cd cds spec of
        Inl e \<Rightarrow> Inl e
      | Inr v \<Rightarrow> analyze_loop pf n cd cds (results(metric_key spec \<mapsto> v)) specs)"

definition analyze_metric ::
  "(string \<Rightarrow> real option) \<Rightarrow> node \<Rightarrow> string list \<Rightarrow> real list
     \<Rightarrow> (metric_results \<times> real list) result" where
  "analyze_metric pf n metric_list tw =
     (case take_snapshots n tw of
        Inl e \<Rightarrow> Inl e
      | Inr (prim, sec, tw') \<Rightarrow>
          (case analyze_loop pf n (map_option fst prim) (map_option fst sec) Map.empty
                  metric_list of
             Inl e \<Rightarrow> Inl e
           | Inr results \<Rightarrow> Inr (results, tw')))"

text \<open>
  Lines 829-835, \<^verbatim>\<open>generate_metric_lists\<close>: the registry built from the registered
  callables, each with its \<^verbatim>\<open>__name__\<close>; of two callables of one name the later one is
  kept. The descriptions are left out.
\<close>

definition generate_metric_lists :: "node \<Rightarrow> node" where
  "generate_metric_lists n =
     n\<lparr> metric_names := map fst (metric_functions n),
        metric_pointers := map_of (rev (metric_functions n)) \<rparr>"

subsection \<open>Interleavings of the receiver and a snapshot\<close>

text \<open>
  The receiver holds \<^verbatim>\<open>lock_primary\<close> over lines 319-332 and a snapshot holds it over lines
  411-420, so each of the two is one step with respect to the other. Lines 335-336 of the
  receiver run after the release and are a step of their own. A schedule is a sequence
  of such steps; the copies taken are collected in order.
\<close>

datatype action = Append_locked "real list" "real option" | Append_flag | Take_copy

fun run_schedule ::
  "node \<Rightarrow> int \<Rightarrow> primary_copy list \<Rightarrow> action list \<Rightarrow> (node \<times> int \<times> primary_copy list) result" where
  "run_schedule n i cs [] = Inr (n, i, cs)"
| "run_schedule n i cs (Append_locked x t # acts) =
     (case receiver_locked n i x t of
        Inl e \<Rightarrow> Inl e
      | Inr (n', i') \<Rightarrow> run_schedule n' i' cs acts)"
| "run_schedule n i cs (Append_flag # acts) = run_schedule (receiver_flag n i) i cs acts"
| "run_schedule n i cs (Take_copy # acts) =
     (case snapshot_copy n of
        Inl e \<Rightarrow> Inl e
      | Inr c \<Rightarrow> run_schedule n i (cs @ [c]) acts)"

subsection \<open>Concrete configurations and runs\<close>

text \<open>A primary node with one channel \<open>x\<close>, no secondary data.\<close>

definition primary_config :: "int \<Rightarrow> real \<Rightarrow> init_args" where
  "primary_config rate seconds =
     \<lparr> arg_primary_node = True, arg_lsl_stream_name = Some ''stream'',
       arg_n_channels = Some 1, arg_channel_names = [''x''],
       arg_channel_descriptions = None, arg_sampling_rate = Some rate,
       arg_buffer_size_s = seconds, arg_secondary_data = False,
       arg_n_channels_secondary = 0, arg_buffer_size_secondary = 0,
       arg_channel_names_secondary = [], arg_channel_descriptions_secondary = None,
       arg_default_channel = [] \<rparr>"

text \<open>The same configuration with \<^verbatim>\<open>primary_node\<close> false and two secondary channels.\<close>

definition secondary_config :: init_args where
  "secondary_config =
     (primary_config 1 4)\<lparr> arg_primary_node := False, arg_secondary_data := True,
        arg_n_channels_secondary := 2, arg_buffer_size_secondary := 8,
        arg_channel_names_secondary := [''u'', ''v''] \<rparr>"

text \<open>A node is constructed and its receiver runs over the given samples.\<close>

definition boot :: "init_args \<Rightarrow> (real list \<times> real option) list \<Rightarrow> (node \<times> int) result" where
  "boot a ss = (case init a of Inl e \<Rightarrow> Inl e | Inr n \<Rightarrow> receiver n ss)"

text \<open>The values \<^verbatim>\<open>last_time\<close> and the time array hold after such a run.\<close>

definition times_after :: "init_args \<Rightarrow> (real list \<times> real option) list \<Rightarrow> (real \<times> real list) result" where
  "times_after a ss =
     (case boot a ss of Inl e \<Rightarrow> Inl e | Inr (n, i) \<Rightarrow> Inr (last_time n, time_array n))"


text \<open>The copies a schedule takes when it starts after such a run.\<close>

definition copies_after ::
  "init_args \<Rightarrow> (real list \<times> real option) list \<Rightarrow> action list \<Rightarrow> primary_copy list result" where
  "copies_after a ss acts =
     (case boot a ss of
        Inl e \<Rightarrow> Inl e
      | Inr (n, i) \<Rightarrow>
          (case run_schedule n i [] acts of Inl e \<Rightarrow> Inl e | Inr (n', i', cs) \<Rightarrow> Inr cs))"

text \<open>Scenario S3: a buffer of three samples at rate 2; two samples carry no time stamp.\<close>

definition S3_config :: init_args where
  "S3_config = primary_config 2 (3 / 2)"


text \<open>Scenario S1: a buffer of four samples at rate 1, fed five samples.\<close>

definition S1_config :: init_args where
  "S1_config = primary_config 1 4"

definition S1_samples :: "(real list \<times> real option) list" where
  "S1_samples = [([10], Some 1), ([20], Some 2), ([30], Some 3), ([40], Some 4), ([50], Some 5)]"

text \<open>
  A node with one primary channel \<open>x\<close> and one secondary channel \<open>u\<close>, both with room
  for four samples and both fed the five samples of scenario S1, so that the two buffers
  hold the same contents. A metric \<open>test\<close> is registered: the sum of its one channel.
\<close>

definition twin_config :: init_args where
  "twin_config =
     S1_config\<lparr> arg_secondary_data := True, arg_n_channels_secondary := 1,
        arg_buffer_size_secondary := 4, arg_channel_names_secondary := [''u''] \<rparr>"

definition sum_metric :: metric_fn where
  "sum_metric data params =
     (case data of
        [row] \<Rightarrow> Inr (FloatV (sum_list row))
      | _ \<Rightarrow> Inl ''sum_metric() takes one channel'')"

definition twin_node :: "node result" where
  "twin_node =
     (case boot twin_config S1_samples of
        Inl e \<Rightarrow> Inl e
      | Inr (n, i) \<Rightarrow>
          (case push_chunk_secondary n 0 [(1, 10), (2, 20), (3, 30), (4, 40), (5, 50)] of
             Inl e \<Rightarrow> Inl e
           | Inr n' \<Rightarrow>
               Inr (generate_metric_lists (n'\<lparr> metric_functions := [(''test'', sum_metric)] \<rparr>))))"




definition twin_analyze ::
  "string list \<Rightarrow> real list \<Rightarrow> string list \<Rightarrow> (pyval option list \<times> real list) result" where
  "twin_analyze ms tw keys =
     (case twin_node of
        Inl e \<Rightarrow> Inl e
      | Inr n \<Rightarrow>
          (case analyze_metric (\<lambda>s. None) n ms tw of
             Inl e \<Rightarrow> Inl e
           | Inr (res, tw') \<Rightarrow> Inr (map res keys, tw')))"

section \<open>Properties\<close>

subsection \<open>The constructor\<close>





text \<open>
  C8. With \<^verbatim>\<open>primary_node\<close> false the constructor raises \<^verbatim>\<open>AttributeError\<close>: line 190
  reads \<^verbatim>\<open>self.channel_descriptions\<close>, which only the primary branch assigns. No
  configuration constructs a node that is not a primary one.
\<close>

theorem C8_secondary_only_fails:
  "\<not> arg_primary_node a \<Longrightarrow> init a = Inl (AttributeError ''channel_descriptions'')"
  by (simp add: init_def init_primary_attrs_def init_channel_descriptions_def)

theorem C8_secondary_only_fails_witness:
  "\<not> arg_primary_node secondary_config
   \<and> init secondary_config = Inl (AttributeError ''channel_descriptions'')"
  using C8_secondary_only_fails [of secondary_config]
  by (simp add: secondary_config_def primary_config_def)

subsection \<open>The receiver\<close>

lemma py_get_py_set:
  assumes "py_set xs i v = Inr ys"
  shows "py_get ys i = Inr v"
  using assms
  by (auto simp: py_get_def py_set_def py_index_def split: option.splits if_splits)

text \<open>
  What line 325 does for every node and sample: a sample without a time stamp is written
  with \<^verbatim>\<open>last_time + sampling_rate\<close>, in the time array and in \<^verbatim>\<open>last_time\<close>.
\<close>

lemma receiver_locked_synthesized:
  assumes "receiver_locked n i x None = Inr (n', i')"
  shows "last_time n' = last_time n + of_int (sampling_rate n)
         \<and> py_get (time_array n') (wptr n) = Inr (last_time n')"
  using assms
  by (auto simp: receiver_locked_def Let_def py_get_py_set split: sum.splits if_splits)

text \<open>
  C1. The claim has a synthesized time stamp equal to the previous \<^verbatim>\<open>last_time\<close> plus
  \<open>1/sampling_rate\<close>. Line 325 adds \<^verbatim>\<open>sampling_rate\<close> itself: at rate 2, after a sample
  stamped 10, a sample without a time stamp is written with 12 (in the time array and in
  \<^verbatim>\<open>last_time\<close>), not with 10.5.
\<close>

theorem C1_synthesized_stamp_adds_rate:
  "times_after S3_config [([1], Some 10), ([2], None)] = Inr (12, [10, 12, 0])
   \<and> times_after S3_config [([1], Some 10), ([2], None)]
       \<noteq> Inr (10 + 1 / 2, [10, 10 + 1 / 2, 0])"
  by code_simp



text \<open>
  C6. A buffer of two samples holds one sample; the receiver appends a second one. A copy
  taken between the release of the lock (line 332) and the update of the full flag
  (lines 335-336) holds the new sample and the new write index with the old flag: it is
  neither the copy before the append nor the copy after it.
\<close>

theorem C6_copy_between_release_and_flag:
  "copies_after (primary_config 1 2) [([10], Some 1)]
     [Take_copy, Append_locked [20] (Some 2), Append_flag]
     = Inr [\<lparr> time_array_copy = [1, 0], bf_copy = 0, wp_copy = 1,
               channel_data_copy = [[10, 0]] \<rparr>]
   \<and> copies_after (primary_config 1 2) [([10], Some 1)]
     [Append_locked [20] (Some 2), Take_copy, Append_flag]
     = Inr [\<lparr> time_array_copy = [1, 2], bf_copy = 0, wp_copy = 0,
               channel_data_copy = [[10, 20]] \<rparr>]
   \<and> copies_after (primary_config 1 2) [([10], Some 1)]
     [Append_locked [20] (Some 2), Append_flag, Take_copy]
     = Inr [\<lparr> time_array_copy = [1, 2], bf_copy = 1, wp_copy = 0,
               channel_data_copy = [[10, 20]] \<rparr>]"
  by code_simp

subsection \<open>Snapshots\<close>


























subsection \<open>Metric requests\<close>

lemma analyze_loop_other:
  assumes "analyze_loop pf n cd cds R ms = Inr R'" and "k \<notin> metric_key ` set ms"
  shows "R' k = R k"
  using assms
proof (induction ms arbitrary: R)
  case Nil
  then show ?case by simp
next
  case (Cons s ss)
  from Cons.prems(1) obtain v where v: "metric_value pf n cd cds s = Inr v"
    and rest: "analyze_loop pf n cd cds (R(metric_key s \<mapsto> v)) ss = Inr R'"
    by (auto split: sum.splits)
  from Cons.prems(2) have "k \<noteq> metric_key s" "k \<notin> metric_key ` set ss" by auto
  with Cons.IH [OF rest] show ?case by simp
qed

lemma analyze_loop_last_wins:
  assumes "analyze_loop pf n cd cds R ms = Inr R'"
    and "i < length ms"
    and "\<forall>j. i < j \<and> j < length ms \<longrightarrow> metric_key (ms ! j) \<noteq> metric_key (ms ! i)"
  shows "\<exists>v. metric_value pf n cd cds (ms ! i) = Inr v \<and> R' (metric_key (ms ! i)) = Some v"
  using assms
proof (induction ms arbitrary: R i)
  case Nil
  then show ?case by simp
next
  case (Cons s ss)
  from Cons.prems(1) obtain v where v: "metric_value pf n cd cds s = Inr v"
    and rest: "analyze_loop pf n cd cds (R(metric_key s \<mapsto> v)) ss = Inr R'"
    by (auto split: sum.splits)
  show ?case
  proof (cases i)
    case 0
    have "metric_key s \<notin> metric_key ` set ss"
    proof
      assume "metric_key s \<in> metric_key ` set ss"
      then obtain j where "j < length ss" "metric_key (ss ! j) = metric_key s"
        by (auto simp: in_set_conv_nth)
      with Cons.prems(3) 0 show False by (auto dest: spec [of _ "Suc j"])
    qed
    from analyze_loop_other [OF rest this] v 0 show ?thesis by simp
  next
    case (Suc i')
    with Cons.prems have "i' < length ss"
      and "\<forall>j. i' < j \<and> j < length ss \<longrightarrow> metric_key (ss ! j) \<noteq> metric_key (ss ! i')"
      by (auto dest: spec [of _ "Suc _"])
    from Cons.IH [OF rest this] Suc show ?thesis by simp
  qed
qed

lemma split_on_absent: "c \<notin> set s \<Longrightarrow> split_on c s = [s]"
  by (induction s) auto

lemma metric_value_unknown:
  assumes "metric_name spec \<notin> set (metric_names n) \<or> \<not> channels_found n spec"
  shows "metric_value pf n cd cds spec = Inr unknown_metric"
  using assms by (auto simp: metric_value_def)

lemma bare_not_found: "CHR '':'' \<notin> set spec \<Longrightarrow> \<not> channels_found n spec"
  by (simp add: channels_found_def metric_channels_def split_on_absent)




text \<open>
  C10. A specifier without \<open>:\<close> has no channel field, so \<^verbatim>\<open>channels_found\<close> is false and
  the specifier yields \<open>unknown metric and/or channel\<close>, whether or not its name is
  registered: a request of that one specifier returns the string under its key, and so
  does any request that returns, unless a later specifier has the same key.
\<close>

theorem C10_bare_specifier_unknown:
  assumes "CHR '':'' \<notin> set spec"
  shows "metric_value pf n cd cds spec = Inr unknown_metric
         \<and> (\<forall>prim sec tw'. take_snapshots n tw = Inr (prim, sec, tw')
              \<longrightarrow> analyze_metric pf n [spec] tw = Inr ([metric_key spec \<mapsto> unknown_metric], tw'))
         \<and> (\<forall>ms res tw' i. analyze_metric pf n ms tw = Inr (res, tw') \<and> i < length ms
                \<and> ms ! i = spec
                \<and> (\<forall>j. i < j \<and> j < length ms \<longrightarrow> metric_key (ms ! j) \<noteq> metric_key spec)
              \<longrightarrow> res (metric_key spec) = Some unknown_metric)"
proof -
  have v: "metric_value pf n cd cds spec = Inr unknown_metric" for cd cds
    by (rule metric_value_unknown) (simp add: bare_not_found [OF assms])
  have g: "res (metric_key spec) = Some unknown_metric"
    if a: "analyze_metric pf n ms tw = Inr (res, tw')" "i < length ms" "ms ! i = spec"
      "\<forall>j. i < j \<and> j < length ms \<longrightarrow> metric_key (ms ! j) \<noteq> metric_key spec"
    for ms res tw' i
  proof -
    from a(1) obtain cd cds where loop: "analyze_loop pf n cd cds Map.empty ms = Inr res"
      by (auto simp: analyze_metric_def split: sum.splits)
    from a(3,4) have "\<forall>j. i < j \<and> j < length ms \<longrightarrow> metric_key (ms ! j) \<noteq> metric_key (ms ! i)"
      by simp
    from analyze_loop_last_wins [OF loop a(2) this] v a(3) show ?thesis by auto
  qed
  from v g show ?thesis by (auto simp: analyze_metric_def)
qed

theorem C10_bare_specifier_unknown_witness:
  "CHR '':'' \<notin> set ''test''
   \<and> twin_analyze [''test''] [3, 3] [''test''] = Inr ([Some unknown_metric], [3, 0])"
proof -
  have "\<not> isl twin_node" by code_simp
  then obtain n where n: "twin_node = Inr n" by (metis sum.collapse(2))
  have c: "CHR '':'' \<notin> set ''test''" by simp
  have "(case twin_node of Inl e \<Rightarrow> Inl e
         | Inr n \<Rightarrow> map_sum id (\<lambda>(p, s, tw'). tw') (take_snapshots n [3, 3])) = Inr [3, 0]"
    by code_simp
  then obtain prim sec where ts: "take_snapshots n [3, 3] = Inr (prim, sec, [3, 0])"
    unfolding n by (auto split: sum.splits simp: map_sum_def)
  have k: "metric_key ''test'' = ''test''" by (simp add: metric_key_def replace_char_def)
  from C10_bare_specifier_unknown [OF c, of "\<lambda>s. None" n None None "[3, 3]"] ts
  have "analyze_metric (\<lambda>s. None) n [''test''] [3, 3] = Inr ([''test'' \<mapsto> unknown_metric], [3, 0])"
    by (simp add: k)
  then have "twin_analyze [''test''] [3, 3] [''test''] = Inr ([Some unknown_metric], [3, 0])"
    unfolding twin_analyze_def n by simp
  with c show ?thesis by simp
qed

end
